theory Spec2Isabelle
  imports Main "HOL-Library.Sublist"
begin

section \<open>Shared JavaScript notions\<close>

text \<open>
  A thrown JavaScript error: the optional numeric \<open>code\<close> property that wallet
  providers attach, and the \<open>message\<close>.  \<open>new Error(msg)\<close> has no code.
\<close>

datatype js_error = JsError (err_code: "int option") (err_message: string)

definition new_Error :: "string \<Rightarrow> js_error" where
  "new_Error msg = JsError None msg"

text \<open>\<open>s.startsWith(p)\<close> and \<open>s.substring(n)\<close> on strings.\<close>

definition startsWith :: "string \<Rightarrow> string \<Rightarrow> bool" where
  "startsWith s p = prefix p s"

definition substring :: "string \<Rightarrow> nat \<Rightarrow> string" where
  "substring s n = drop n s"

text \<open>\<open>a || b\<close> on strings: the empty string is falsy.\<close>

definition str_or :: "string \<Rightarrow> string \<Rightarrow> string" where
  "str_or a b = (if a \<noteq> [] then a else b)"

text \<open>Decimal rendering of a number inside a template literal.\<close>

function decimal :: "nat \<Rightarrow> string" where
  "decimal n =
     (if n < 10 then [char_of (48 + n)]
      else decimal (n div 10) @ [char_of (48 + n mod 10)])"
  by pat_completeness auto
termination
  by (relation "measure (\<lambda>n. n)") auto

declare decimal.simps [simp del]

section \<open>Display.js\<close>

definition gateway :: string where
  "gateway = ''https://gateway.pinata.cloud/ipfs/''"

text \<open>
  The body of the \<open>dataArray.map\<close> callback in \<open>getdata\<close> that computes
  \<open>imageUrl\<close> from one registry item.
\<close>

definition imageUrl :: "string \<Rightarrow> string" where
  "imageUrl item =
     (if startsWith item ''https://gateway.pinata.cloud/ipfs/'' then item
      else if startsWith item ''ipfs://'' then gateway @ substring item 7
      else gateway @ item)"

record image =
  image_id :: nat
  url :: string
  hash :: string
  image_name :: string

definition processedImage :: "nat \<Rightarrow> string \<Rightarrow> image" where
  "processedImage i item =
     \<lparr>image_id = i, url = imageUrl item, hash = item,
      image_name = ''File '' @ decimal (i + 1)\<rparr>"

definition processedImages :: "string list \<Rightarrow> image list" where
  "processedImages dataArray = map (\<lambda>(i, item). processedImage i item) (enumerate 0 dataArray)"

record access =
  user :: string
  access_flag :: bool

record display_state =
  data :: "image list"
  loading :: bool
  viewAddress :: string
  error :: string
  selectedImage :: "image option"
  currentViewingAddress :: string
  showShareModal :: bool
  shareAddress :: string
  shareLoading :: bool
  sharedAccess :: "access list"
  successMessage :: string

text \<open>The state after the \<open>useState\<close> initialisers of the component.\<close>

definition display_init :: display_state where
  "display_init =
     \<lparr>data = [], loading = False, viewAddress = [], error = [],
      selectedImage = None, currentViewingAddress = [], showShareModal = False,
      shareAddress = [], shareLoading = False, sharedAccess = [],
      successMessage = []\<rparr>"

definition msg_no_access :: string where
  "msg_no_access = ''You don'' @ [CHR 0x27] @ ''t have access to view files from this address''"

definition msg_no_files :: string where
  "msg_no_files = ''No files found for this address''"

text \<open>
  \<open>getdata(address)\<close>.  The props are arguments: \<open>has_contract\<close> says whether the
  \<open>contract\<close> prop is non-null and \<open>acct\<close> is the \<open>account\<close> prop.  The registry
  is outside this repository's sources, so the outcome of \<open>contract.display(target)\<close>
  is the argument \<open>resp\<close>: \<open>Inl e\<close> when the call throws (the registry reverts when
  the caller may not read the target), \<open>Inr None\<close> for a null result and
  \<open>Inr (Some xs)\<close> for the returned array.  \<open>targetAddressOf\<close> is
  \<open>address || viewAddress || account\<close>, with \<open>null\<close> for no argument.
\<close>

definition targetAddressOf :: "string option \<Rightarrow> string \<Rightarrow> string \<Rightarrow> string" where
  "targetAddressOf address view acct =
     str_or (case address of None \<Rightarrow> [] | Some a \<Rightarrow> a) (str_or view acct)"

definition getdata ::
  "bool \<Rightarrow> string \<Rightarrow> string option \<Rightarrow> (js_error + string list option) \<Rightarrow>
   display_state \<Rightarrow> display_state" where
  "getdata has_contract acct address resp s =
     (if \<not> has_contract then s\<lparr>error := ''Contract not available''\<rparr>
      else
        let targetAddress = targetAddressOf address (viewAddress s) acct
        in if targetAddress = [] then s\<lparr>error := ''Please enter an address''\<rparr>
        else
          let s1 = s\<lparr>loading := True, error := []\<rparr>
          in case resp of
               Inl e \<Rightarrow> s1\<lparr>error := msg_no_access, data := [], loading := False\<rparr>
             | Inr dataArray \<Rightarrow>
                 (case dataArray of
                    None \<Rightarrow>
                      s1\<lparr>data := [], error := msg_no_files,
                         currentViewingAddress := targetAddress, loading := False\<rparr>
                  | Some xs \<Rightarrow>
                      if length xs = 0 then
                        s1\<lparr>data := [], error := msg_no_files,
                           currentViewingAddress := targetAddress, loading := False\<rparr>
                      else
                        s1\<lparr>data := processedImages xs,
                           currentViewingAddress := targetAddress, loading := False\<rparr>))"

subsection \<open>Registry calls and transactions\<close>

text \<open>
  A file object of the browser: its \<open>name\<close>, its declared media \<open>type\<close> and its
  \<open>size\<close> in bytes.
\<close>

record js_file =
  file_name :: string
  file_type :: string
  file_size :: nat

text \<open>
  The handle that a mutating contract call resolves to once the transaction has been
  submitted.  Its \<open>wait()\<close> resolves when the transaction is mined and throws when it
  is not: \<open>wait_outcome\<close> is what \<open>wait()\<close> would do.
\<close>

datatype tx = Tx (tx_hash: string) (wait_outcome: "js_error + unit")

text \<open>The requests that leave the browser, in the order they are issued.\<close>

datatype call =
    PinFile js_file
  | ContractAdd string string
  | ContractAllow string
  | ContractDisallow string
  | ContractShareAccess
  | ContractDisplay string
  | TxWait string

text \<open>
  A string stands for the UTF-8 bytes of the JavaScript string; the prefixes and the
  offset that the other string operations above use are ASCII, where bytes and UTF-16
  units agree.  \<open>trim()\<close> removes
  white space and line terminators: the code points U+0009 to U+000D, U+0020, U+00A0,
  U+1680, U+2000 to U+200A, U+2028, U+2029, U+202F, U+205F, U+3000 and U+FEFF.  The
  first six are single bytes, U+00A0 is the two bytes C2 A0, and \<open>space3\<close> lists the
  three-byte encodings of the others.
\<close>

definition space1 :: "nat list" where
  "space1 = [0x09, 0x0A, 0x0B, 0x0C, 0x0D, 0x20]"

definition space3 :: "(nat \<times> nat \<times> nat) list" where
  "space3 =
     [(0xE1, 0x9A, 0x80),
      (0xE2, 0x80, 0x80), (0xE2, 0x80, 0x81), (0xE2, 0x80, 0x82), (0xE2, 0x80, 0x83),
      (0xE2, 0x80, 0x84), (0xE2, 0x80, 0x85), (0xE2, 0x80, 0x86), (0xE2, 0x80, 0x87),
      (0xE2, 0x80, 0x88), (0xE2, 0x80, 0x89), (0xE2, 0x80, 0x8A),
      (0xE2, 0x80, 0xA8), (0xE2, 0x80, 0xA9), (0xE2, 0x80, 0xAF),
      (0xE2, 0x81, 0x9F), (0xE3, 0x80, 0x80), (0xEF, 0xBB, 0xBF)]"

text \<open>Do the bytes encode white space and line terminators only?\<close>

fun all_space :: "nat list \<Rightarrow> bool" where
  "all_space [] = True"
| "all_space (a # bs) =
     (if a \<in> set space1 then all_space bs
      else case bs of
             [] \<Rightarrow> False
           | b # cs \<Rightarrow>
               if a = 0xC2 \<and> b = 0xA0 then all_space cs
               else case cs of
                      [] \<Rightarrow> False
                    | c # ds \<Rightarrow> if (a, b, c) \<in> set space3 then all_space ds else False)"

text \<open>\<open>!s.trim()\<close>: nothing is left of \<open>s\<close> once it is trimmed.\<close>

definition trim_empty :: "string \<Rightarrow> bool" where
  "trim_empty s = all_space (map of_char s)"

text \<open>
  \<open>loadSharedAccess()\<close>: \<open>resp\<close> is the outcome of \<open>contract.shareAccess()\<close>; a
  failure is only logged to the console.
\<close>

definition loadSharedAccess ::
  "bool \<Rightarrow> string \<Rightarrow> (js_error + access list) \<Rightarrow> display_state \<Rightarrow>
   display_state \<times> call list" where
  "loadSharedAccess has_contract acct resp s =
     (if \<not> has_contract \<or> acct = [] then (s, [])
      else case resp of
             Inr accessList \<Rightarrow> (s\<lparr>sharedAccess := accessList\<rparr>, [ContractShareAccess])
           | Inl e \<Rightarrow> (s, [ContractShareAccess]))"

text \<open>
  \<open>shareAccess(targetAddress)\<close>: \<open>allow_resp\<close> is the outcome of
  \<open>contract.allow(targetAddress)\<close>, \<open>access_resp\<close> that of the reload of the grant
  list.  The timer that clears the success message three seconds later is
  \<open>clearSuccessMessage\<close>.
\<close>

definition shareAccess ::
  "bool \<Rightarrow> string \<Rightarrow> string \<Rightarrow> (js_error + tx) \<Rightarrow> (js_error + access list) \<Rightarrow>
   display_state \<Rightarrow> display_state \<times> call list" where
  "shareAccess has_contract acct targetAddress allow_resp access_resp s =
     (if \<not> has_contract \<or> acct = [] then (s\<lparr>error := ''Contract not available''\<rparr>, [])
      else if trim_empty targetAddress then (s\<lparr>error := ''Please enter a valid address''\<rparr>, [])
      else
        let s1 = s\<lparr>shareLoading := True, error := []\<rparr>;
            failed = s1\<lparr>error := ''Failed to share access. Please try again.'',
                        shareLoading := False\<rparr>
        in case allow_resp of
             Inl e \<Rightarrow> (failed, [ContractAllow targetAddress])
           | Inr transaction \<Rightarrow>
               (case wait_outcome transaction of
                  Inl e \<Rightarrow> (failed, [ContractAllow targetAddress, TxWait (tx_hash transaction)])
                | Inr u \<Rightarrow>
                    let s2 = s1\<lparr>successMessage := ''Successfully shared access with '' @ targetAddress,
                                shareAddress := [], showShareModal := False\<rparr>;
                        (s3, tr) = loadSharedAccess has_contract acct access_resp s2
                    in (s3\<lparr>shareLoading := False\<rparr>,
                        [ContractAllow targetAddress, TxWait (tx_hash transaction)] @ tr)))"

text \<open>\<open>revokeAccess(targetAddress)\<close>, with \<open>contract.disallow\<close>.\<close>

definition revokeAccess ::
  "bool \<Rightarrow> string \<Rightarrow> string \<Rightarrow> (js_error + tx) \<Rightarrow> (js_error + access list) \<Rightarrow>
   display_state \<Rightarrow> display_state \<times> call list" where
  "revokeAccess has_contract acct targetAddress disallow_resp access_resp s =
     (if \<not> has_contract \<or> acct = [] then (s\<lparr>error := ''Contract not available''\<rparr>, [])
      else
        let failed = s\<lparr>error := ''Failed to revoke access. Please try again.''\<rparr>
        in case disallow_resp of
             Inl e \<Rightarrow> (failed, [ContractDisallow targetAddress])
           | Inr transaction \<Rightarrow>
               (case wait_outcome transaction of
                  Inl e \<Rightarrow> (failed, [ContractDisallow targetAddress, TxWait (tx_hash transaction)])
                | Inr u \<Rightarrow>
                    let s2 = s\<lparr>successMessage := ''Successfully revoked access for '' @ targetAddress\<rparr>;
                        (s3, tr) = loadSharedAccess has_contract acct access_resp s2
                    in (s3, [ContractDisallow targetAddress, TxWait (tx_hash transaction)] @ tr)))"

definition clearSuccessMessage :: "display_state \<Rightarrow> display_state" where
  "clearSuccessMessage s = s\<lparr>successMessage := []\<rparr>"

section \<open>FileUpload.js\<close>

text \<open>
  The component state; \<open>file_st\<close> is the state variable \<open>file\<close>.  The last field
  is no state variable: \<open>timers\<close> is the number of progress timers that
  \<open>handleSubmit\<close> has started with \<open>setInterval\<close> and that have not been cleared.
\<close>

record upload_state =
  file_st :: "js_file option"
  fileName :: string
  uploading :: bool
  dragActive :: bool
  uploadProgress :: nat
  upload_error :: string
  success :: string
  timers :: nat

definition upload_init :: upload_state where
  "upload_init =
     \<lparr>file_st = None, fileName = [], uploading = False, dragActive = False,
      uploadProgress = 0, upload_error = [], success = [], timers = 0\<rparr>"

definition allowedTypes :: "string list" where
  "allowedTypes = [''image/jpeg'', ''image/png'', ''image/gif'', ''image/webp'']"

definition maxSize :: nat where
  "maxSize = 10 * 1024 * 1024"

text \<open>\<open>handleFileSelection(selectedFile)\<close>; it sends nothing.\<close>

definition handleFileSelection :: "js_file \<Rightarrow> upload_state \<Rightarrow> upload_state" where
  "handleFileSelection selectedFile s =
     (if file_type selectedFile \<notin> set allowedTypes then
        s\<lparr>upload_error := ''Please select a valid image file (JPEG, PNG, GIF, WebP)''\<rparr>
      else if file_size selectedFile > maxSize then
        s\<lparr>upload_error := ''File size must be less than 10MB''\<rparr>
      else
        s\<lparr>file_st := Some selectedFile, fileName := file_name selectedFile, upload_error := []\<rparr>)"

definition removeFile :: "upload_state \<Rightarrow> upload_state" where
  "removeFile s = s\<lparr>file_st := None, fileName := [], upload_error := []\<rparr>"

text \<open>
  What \<open>handleSubmit\<close> does that can be observed, in order: a request that leaves the
  browser, or a value given to \<open>setUploadProgress\<close>.
\<close>

datatype upload_log = Call call | Progress nat

text \<open>
  The callback of the progress timer that \<open>handleSubmit\<close> starts, run every 200 ms
  with the current progress \<open>prev\<close>: the new progress, and whether the callback has
  cleared its own timer.
\<close>

definition progressCallback :: "nat \<Rightarrow> nat \<times> bool" where
  "progressCallback prev = (if prev \<ge> 90 then (90, True) else (prev + 10, False))"

text \<open>
  The timer callbacks that fire while \<open>handleSubmit\<close> waits for a request.  Each entry
  of the schedule is one callback: \<open>True\<close> for the timer of this run, \<open>False\<close> for a
  timer left active by an earlier run.  \<open>own\<close> says whether the timer of this run is
  active, \<open>others\<close> counts the active timers of earlier runs, \<open>prev\<close> is the current
  progress.  An entry for a timer that is not active stands for nothing.  The result
  lists the progress values set, then \<open>own\<close> and \<open>others\<close> at the end.
\<close>

fun timerTicks :: "bool list \<Rightarrow> bool \<Rightarrow> nat \<Rightarrow> nat \<Rightarrow> nat list \<times> bool \<times> nat" where
  "timerTicks [] own others prev = ([], own, others)"
| "timerTicks (t # ts) own others prev =
     (if (if t then own else 0 < others) then
        (case progressCallback prev of
           (p, cleared) \<Rightarrow>
             (case timerTicks ts (own \<and> \<not> (t \<and> cleared))
                     (if \<not> t \<and> cleared then others - 1 else others) p of
                (l, r) \<Rightarrow> (p # l, r)))
      else timerTicks ts own others prev)"

definition msg_upload_failed :: string where
  "msg_upload_failed = ''Failed to upload file. Please check your connection and try again.''"

definition msg_upload_ok :: string where
  "msg_upload_ok = ''File uploaded successfully to blockchain!''"

text \<open>
  \<open>handleSubmit\<close>, from the call to the point where its promise settles.
  \<open>has_contract\<close> and \<open>acct\<close> are the props; \<open>ticks\<close> is the schedule of timer
  callbacks that fire while the pinning request is pending and \<open>ticks2\<close> the one while
  \<open>contract.add\<close> is pending; \<open>pin_resp\<close> is the outcome of the pinning request
  (\<open>Inr\<close> the \<open>IpfsHash\<close> of the response) and \<open>add_resp\<close> the outcome of
  \<open>await contract.add(account, ImgHash)\<close>.  The transaction handle that
  \<open>contract.add\<close> resolves to is dropped: the source never calls its \<open>wait()\<close>.

  The timer of the run is started before the pinning request and cleared only by its own
  callback or after the pinning request has succeeded.  When the pinning request throws,
  the \<open>catch\<close> block does not clear it: it stays in \<open>timers\<close> if it is still active,
  and goes on through the \<open>Tick\<close> events that follow the run.  The form reset three
  seconds after a success is \<open>resetForm\<close>.
\<close>

definition handleSubmit ::
  "bool \<Rightarrow> string \<Rightarrow> bool list \<Rightarrow> (js_error + string) \<Rightarrow> bool list \<Rightarrow> (js_error + tx) \<Rightarrow>
   upload_state \<Rightarrow> upload_state \<times> upload_log list" where
  "handleSubmit has_contract acct ticks pin_resp ticks2 add_resp s =
     (case file_st s of
        None \<Rightarrow> (s\<lparr>upload_error := ''Please select a file first''\<rparr>, [])
      | Some f \<Rightarrow>
          let s1 = s\<lparr>uploading := True, upload_error := [], success := [], uploadProgress := 0\<rparr>;
              failed = s1\<lparr>upload_error := msg_upload_failed, uploadProgress := 0,
                          uploading := False\<rparr>
          in case timerTicks ticks True (timers s) 0 of
               (set1, own, others) \<Rightarrow>
                 let log1 = [Progress 0, Call (PinFile f)] @ map Progress set1
                 in case pin_resp of
                      Inl e \<Rightarrow>
                        (failed\<lparr>timers := others + (if own then 1 else 0)\<rparr>,
                         log1 @ [Progress 0])
                    | Inr IpfsHash \<Rightarrow>
                        let log2 = log1 @ [Progress 95];
                            ImgHash = ''https://gateway.pinata.cloud/ipfs/'' @ IpfsHash
                        in if has_contract \<and> acct \<noteq> [] then
                             (case timerTicks ticks2 False others 95 of
                                (set2, own2, others2) \<Rightarrow>
                                  let log3 = log2 @ [Call (ContractAdd acct ImgHash)] @
                                             map Progress set2
                                  in case add_resp of
                                       Inl e \<Rightarrow>
                                         (failed\<lparr>timers := others2\<rparr>, log3 @ [Progress 0])
                                     | Inr transaction \<Rightarrow>
                                         (s1\<lparr>uploadProgress := 100, success := msg_upload_ok,
                                             uploading := False, timers := others2\<rparr>,
                                          log3 @ [Progress 100]))
                           else (failed\<lparr>timers := others\<rparr>, log2 @ [Progress 0]))"

text \<open>One callback of a timer that is still active, outside \<open>handleSubmit\<close>.\<close>

definition timerTick :: "upload_state \<Rightarrow> upload_state \<times> upload_log list" where
  "timerTick s =
     (if 0 < timers s then
        (case progressCallback (uploadProgress s) of
           (p, cleared) \<Rightarrow>
             (s\<lparr>uploadProgress := p, timers := (if cleared then timers s - 1 else timers s)\<rparr>,
              [Progress p]))
      else (s, []))"

definition resetForm :: "upload_state \<Rightarrow> upload_state" where
  "resetForm s = s\<lparr>fileName := [], file_st := None, uploadProgress := 0, success := []\<rparr>"

text \<open>The requests in a log, and the progress values in a log.\<close>

fun calls_of :: "upload_log list \<Rightarrow> call list" where
  "calls_of [] = []"
| "calls_of (Call c # l) = c # calls_of l"
| "calls_of (Progress p # l) = calls_of l"

fun progress_of :: "upload_log list \<Rightarrow> nat list" where
  "progress_of [] = []"
| "progress_of (Call c # l) = progress_of l"
| "progress_of (Progress p # l) = p # progress_of l"

text \<open>
  What can happen to the upload form, one handler at a time; a submission carries the
  props, the outcomes of its requests and the timer callbacks that fire meanwhile, and
  \<open>Tick\<close> is a timer callback that fires between two handlers.
\<close>

datatype upload_event =
    Select js_file
  | Submit bool string "bool list" "js_error + string" "bool list" "js_error + tx"
  | Tick
  | Remove
  | ResetForm
  | DismissError

fun upload_step :: "upload_state \<times> upload_log list \<Rightarrow> upload_event \<Rightarrow> upload_state \<times> upload_log list" where
  "upload_step (s, l) (Select f) = (handleFileSelection f s, l)"
| "upload_step (s, l) (Submit has_contract acct ticks pin_resp ticks2 add_resp) =
     (let (s', l') = handleSubmit has_contract acct ticks pin_resp ticks2 add_resp s
      in (s', l @ l'))"
| "upload_step (s, l) Tick = (let (s', l') = timerTick s in (s', l @ l'))"
| "upload_step (s, l) Remove = (removeFile s, l)"
| "upload_step (s, l) ResetForm = (resetForm s, l)"
| "upload_step (s, l) DismissError = (s\<lparr>upload_error := []\<rparr>, l)"

definition upload_run :: "upload_event list \<Rightarrow> upload_state \<times> upload_log list" where
  "upload_run evs = foldl upload_step (upload_init, []) evs"

text \<open>
  A file that \<open>handleFileSelection\<close> accepts: neither of its two rejections applies.
\<close>

definition valid_file :: "js_file \<Rightarrow> bool" where
  "valid_file f = (\<not> (file_type f \<notin> set allowedTypes) \<and> \<not> (file_size f > maxSize))"

text \<open>
  A sequence of requests made of pins of accepted files, each followed by at most one
  registration.
\<close>

fun pin_then_add :: "call list \<Rightarrow> bool" where
  "pin_then_add [] = True"
| "pin_then_add (PinFile g # ContractAdd a u # cs) = (valid_file g \<and> pin_then_add cs)"
| "pin_then_add (PinFile g # cs) = (valid_file g \<and> pin_then_add cs)"
| "pin_then_add (c # cs) = False"

text \<open>
  What holds of the form and of the requests sent so far: the selected file, if any, has
  been accepted, and the requests are pins of accepted files with their registrations.
\<close>

definition upload_inv :: "upload_state \<times> upload_log list \<Rightarrow> bool" where
  "upload_inv c =
     ((case file_st (fst c) of None \<Rightarrow> True | Some g \<Rightarrow> valid_file g) \<and>
      pin_then_add (calls_of (snd c)))"

text \<open>A small picture, and the form after it has been selected.\<close>

definition sample_file :: js_file where
  "sample_file = \<lparr>file_name = ''a.png'', file_type = ''image/png'', file_size = 100\<rparr>"

definition sample_form :: upload_state where
  "sample_form = handleFileSelection sample_file upload_init"

text \<open>A submitted transaction that is never mined: its \<open>wait()\<close> throws.\<close>

definition reverted_tx :: tx where
  "reverted_tx = Tx ''0x01'' (Inl (JsError None ''transaction reverted''))"

section \<open>App.js\<close>

record native_currency =
  currency_name :: string
  currency_symbol :: string
  currency_decimals :: nat

record network_config =
  chainId :: string
  chainName :: string
  nativeCurrency :: native_currency
  rpcUrls :: "string list"
  blockExplorerUrls :: "string list option"

definition HARDHAT_CHAIN_ID :: string where
  "HARDHAT_CHAIN_ID = ''0x539''"

definition CONTRACT_ADDRESS :: string where
  "CONTRACT_ADDRESS = ''0xe7f1725E7734CE288F8367e1Bb143E90bb3F0512''"

definition HARDHAT_NETWORK_CONFIG :: network_config where
  "HARDHAT_NETWORK_CONFIG =
     \<lparr>chainId = HARDHAT_CHAIN_ID, chainName = ''Hardhat Local'',
      nativeCurrency =
        \<lparr>currency_name = ''Ethereum'', currency_symbol = ''ETH'', currency_decimals = 18\<rparr>,
      rpcUrls = [''http://127.0.0.1:8545''], blockExplorerUrls = None\<rparr>"

text \<open>The requests made through \<open>window.ethereum.request\<close>.\<close>

datatype wallet_request =
    EthRequestAccounts
  | EthChainId
  | WalletSwitchEthereumChain string
  | WalletAddEthereumChain network_config

text \<open>
  \<open>ensureCorrectNetwork()\<close>.  The wallet is outside the program, so the outcomes of
  the three requests the function can make are its arguments: \<open>chain_resp\<close> for
  \<open>eth_chainId\<close>, \<open>switch_resp\<close> for \<open>wallet_switchEthereumChain\<close> and
  \<open>add_resp\<close> for \<open>wallet_addEthereumChain\<close>.  The result is what the function
  returns or throws, with the requests it has issued, in order.  The inner pair is the
  body of the outer \<open>try\<close>; the outer \<open>catch\<close> replaces any error.
\<close>

definition ensureCorrectNetwork ::
  "(js_error + string) \<Rightarrow> (js_error + unit) \<Rightarrow> (js_error + unit) \<Rightarrow>
   (js_error + unit) \<times> wallet_request list" where
  "ensureCorrectNetwork chain_resp switch_resp add_resp =
     (let (r, tr) =
        (case chain_resp of
           Inl e \<Rightarrow> (Inl e, [EthChainId])
         | Inr chain \<Rightarrow>
             if chain \<noteq> HARDHAT_CHAIN_ID then
               (case switch_resp of
                  Inr u \<Rightarrow> (Inr (), [EthChainId, WalletSwitchEthereumChain HARDHAT_CHAIN_ID])
                | Inl switchError \<Rightarrow>
                    if err_code switchError = Some 4902 then
                      (case add_resp of Inr u \<Rightarrow> Inr () | Inl e \<Rightarrow> Inl e,
                       [EthChainId, WalletSwitchEthereumChain HARDHAT_CHAIN_ID,
                        WalletAddEthereumChain HARDHAT_NETWORK_CONFIG])
                    else
                      (Inl switchError,
                       [EthChainId, WalletSwitchEthereumChain HARDHAT_CHAIN_ID]))
             else (Inr (), [EthChainId]))
      in (case r of
            Inl e \<Rightarrow> Inl (new_Error ''Failed to switch to Hardhat network'')
          | Inr u \<Rightarrow> Inr (),
          tr))"

text \<open>Does some switch request follow every add request of a trace?\<close>

fun has_switch :: "wallet_request list \<Rightarrow> bool" where
  "has_switch [] = False"
| "has_switch (WalletSwitchEthereumChain i # tr) = True"
| "has_switch (r # tr) = has_switch tr"

fun switch_follows_add :: "wallet_request list \<Rightarrow> bool" where
  "switch_follows_add [] = True"
| "switch_follows_add (WalletAddEthereumChain c # tr) = (has_switch tr \<and> switch_follows_add tr)"
| "switch_follows_add (r # tr) = switch_follows_add tr"

text \<open>Is the wallet's answer to the switch request the error code 4902?\<close>

definition unknown_network :: "(js_error + unit) \<Rightarrow> bool" where
  "unknown_network switch_resp =
     (case switch_resp of Inl switchError \<Rightarrow> err_code switchError = Some 4902 | Inr u \<Rightarrow> False)"

text \<open>
  The objects kept in the component state: the provider created by
  \<open>new ethers.BrowserProvider(window.ethereum)\<close>, told apart by a number, and the
  contract created from the contract address and a signer.
\<close>

datatype provider_obj = BrowserProvider nat

datatype contract_obj = Contract string string

record app_state =
  account :: string
  contract :: "contract_obj option"
  provider :: "provider_obj option"
  modalOpen :: bool
  isConnecting :: bool
  wrongNetwork :: bool
  connectionError :: string
  isLoading :: bool

definition app_init :: app_state where
  "app_init =
     \<lparr>account = [], contract = None, provider = None, modalOpen = False,
      isConnecting = False, wrongNetwork = False, connectionError = [], isLoading = True\<rparr>"

text \<open>
  \<open>initializeProvider(userAccount)\<close>: \<open>web3Provider\<close> is the provider object it
  creates, \<open>network_resp\<close> the outcome of \<open>getNetwork()\<close> (\<open>Inr\<close> the chain
  identifier) and \<open>signer_resp\<close> the outcome of \<open>getSigner()\<close>.
\<close>

definition initializeProvider ::
  "string \<Rightarrow> provider_obj \<Rightarrow> (js_error + int) \<Rightarrow> (js_error + string) \<Rightarrow>
   app_state \<Rightarrow> app_state" where
  "initializeProvider userAccount web3Provider network_resp signer_resp s =
     (case network_resp of
        Inl e \<Rightarrow> s\<lparr>connectionError := ''Failed to initialize blockchain connection''\<rparr>
      | Inr network_chainId \<Rightarrow>
          if network_chainId \<noteq> 1337 then s\<lparr>wrongNetwork := True, account := userAccount\<rparr>
          else
            let s1 = s\<lparr>wrongNetwork := False, account := userAccount,
                       provider := Some web3Provider\<rparr>
            in case signer_resp of
                 Inl e \<Rightarrow> s1\<lparr>connectionError := ''Failed to initialize blockchain connection''\<rparr>
               | Inr signer \<Rightarrow> s1\<lparr>contract := Some (Contract CONTRACT_ADDRESS signer)\<rparr>)"

text \<open>
  A handler is a closure of the render that created it: the state variables it reads
  are those of that render, while its setters write the current state.  In the
  functions below \<open>r\<close> is the state of the render and \<open>s\<close> the current state.

  \<open>connectWallet()\<close> suspends at its awaits, so it is given in three parts.  The
  first runs up to the \<open>eth_requestAccounts\<close> request; the flag returned says whether
  that request has been issued, and when it has not, the call has returned.  \<open>eth\<close>
  says whether \<open>window.ethereum\<close> exists.
\<close>

definition connectWallet_start :: "bool \<Rightarrow> app_state \<Rightarrow> app_state \<Rightarrow> app_state \<times> bool" where
  "connectWallet_start eth r s =
     (if \<not> eth then
        (s\<lparr>connectionError := ''MetaMask is not installed. Please install MetaMask extension.''\<rparr>,
         False)
      else if isConnecting r then (s, False)
      else (s\<lparr>isConnecting := True, connectionError := []\<rparr>, True))"

text \<open>The \<open>catch\<close> and \<open>finally\<close> blocks of \<open>connectWallet\<close>.\<close>

definition connectWallet_catch :: "js_error \<Rightarrow> app_state \<Rightarrow> app_state" where
  "connectWallet_catch e s =
     (if err_code e = Some 4001 then s\<lparr>connectionError := ''Connection rejected by user''\<rparr>
      else if err_code e = Some (- 32002) then
        s\<lparr>connectionError := ''MetaMask is busy. Please check MetaMask and try again.''\<rparr>
      else s\<lparr>connectionError := str_or (err_message e) ''Failed to connect wallet''\<rparr>)"

definition connectWallet_finally :: "app_state \<Rightarrow> app_state" where
  "connectWallet_finally s = s\<lparr>isConnecting := False\<rparr>"

text \<open>
  The second part runs when the wallet answers \<open>eth_requestAccounts\<close>: the call ends
  through \<open>catch\<close> and \<open>finally\<close> (\<open>Inl\<close> the state), or goes on with the first
  account (\<open>Inr\<close>).
\<close>

definition connectWallet_accounts ::
  "(js_error + string list) \<Rightarrow> app_state \<Rightarrow> app_state + string" where
  "connectWallet_accounts accounts_resp s =
     (case accounts_resp of
        Inl e \<Rightarrow> Inl (connectWallet_finally (connectWallet_catch e s))
      | Inr accounts \<Rightarrow>
          (case accounts of
             [] \<Rightarrow> Inl (connectWallet_finally
                     (connectWallet_catch (new_Error ''No accounts returned from MetaMask'') s))
           | a # as \<Rightarrow> Inr a))"

text \<open>
  The third part: \<open>ensureCorrectNetwork\<close>, then \<open>initializeProvider\<close> with the first
  account, then \<open>finally\<close>.
\<close>

definition connectWallet_rest ::
  "string \<Rightarrow> (js_error + string) \<Rightarrow> (js_error + unit) \<Rightarrow> (js_error + unit) \<Rightarrow>
   provider_obj \<Rightarrow> (js_error + int) \<Rightarrow> (js_error + string) \<Rightarrow>
   app_state \<Rightarrow> app_state \<times> wallet_request list" where
  "connectWallet_rest a chain_resp switch_resp add_resp web3Provider network_resp signer_resp s =
     (let (r, tr) = ensureCorrectNetwork chain_resp switch_resp add_resp
      in case r of
           Inl e \<Rightarrow> (connectWallet_finally (connectWallet_catch e s), tr)
         | Inr u \<Rightarrow>
             (connectWallet_finally
                (initializeProvider a web3Provider network_resp signer_resp s), tr))"

definition handleAccountsChanged ::
  "string list \<Rightarrow> provider_obj \<Rightarrow> (js_error + int) \<Rightarrow> (js_error + string) \<Rightarrow>
   app_state \<Rightarrow> app_state" where
  "handleAccountsChanged accounts web3Provider network_resp signer_resp s =
     (case accounts of
        a # as \<Rightarrow> initializeProvider a web3Provider network_resp signer_resp s
      | [] \<Rightarrow> s\<lparr>account := [], contract := None, provider := None, wrongNetwork := False\<rparr>)"

definition disconnectWallet :: "app_state \<Rightarrow> app_state" where
  "disconnectWallet s =
     s\<lparr>account := [], contract := None, provider := None, wrongNetwork := False,
       connectionError := []\<rparr>"

text \<open>\<open>switchNetwork()\<close>; the account it reads is the one of its render.\<close>

definition switchNetwork ::
  "(js_error + string) \<Rightarrow> (js_error + unit) \<Rightarrow> (js_error + unit) \<Rightarrow>
   provider_obj \<Rightarrow> (js_error + int) \<Rightarrow> (js_error + string) \<Rightarrow>
   app_state \<Rightarrow> app_state \<Rightarrow> app_state \<times> wallet_request list" where
  "switchNetwork chain_resp switch_resp add_resp web3Provider network_resp signer_resp r s =
     (let (res, tr) = ensureCorrectNetwork chain_resp switch_resp add_resp
      in case res of
           Inl e \<Rightarrow>
             (s\<lparr>connectionError :=
                  ''Failed to switch network. Please switch manually in MetaMask.''\<rparr>, tr)
         | Inr u \<Rightarrow>
             (if account r \<noteq> [] then
                initializeProvider (account r) web3Provider network_resp signer_resp s
              else s, tr))"

subsection \<open>Interleaved handlers\<close>

text \<open>
  Where a call of \<open>connectWallet\<close> stands: its \<open>eth_requestAccounts\<close> request is
  unanswered; or it has got its accounts and goes on with the first of them; or its
  promise has settled.
\<close>

datatype call_phase = AwaitingAccounts | Resumed string | Settled

text \<open>
  The component between two handler runs: the current state, the state of the latest
  render, the calls of \<open>connectWallet\<close> in the order they were made, and the wallet
  requests issued so far by the handlers.  Requests that the ethers library makes on
  its own inside \<open>getNetwork\<close> and \<open>getSigner\<close> are not recorded.  Nothing in this
  record limits the number of calls in flight.
\<close>

record session =
  app :: app_state
  rendered :: app_state
  calls :: "call_phase list"
  requests :: "wallet_request list"

definition session_init :: session where
  "session_init = \<lparr>app = app_init, rendered = app_init, calls = [], requests = []\<rparr>"

text \<open>
  One handler run, one resumption after an await, or one render.  \<open>Render\<close> makes the
  current state the one that the handlers read.  A call of \<open>connectWallet\<close> that
  returns at its guard settles at once.  \<open>AccountsAnswer i\<close> is the wallet's answer to
  the request of call \<open>i\<close>, and \<open>ConnectResume i\<close> the rest of call \<open>i\<close>; the
  awaits that follow the accounts answer are taken in one step.  An answer or a
  resumption for a call that is not waiting for it changes nothing.
\<close>

datatype app_event =
    ConnectClick
  | Render
  | AccountsAnswer nat "js_error + string list"
  | ConnectResume nat "js_error + string" "js_error + unit" "js_error + unit"
      provider_obj "js_error + int" "js_error + string"
  | AccountsChanged "string list" provider_obj "js_error + int" "js_error + string"
  | SwitchNetworkClick "js_error + string" "js_error + unit" "js_error + unit"
      provider_obj "js_error + int" "js_error + string"
  | DisconnectClick
  | DismissConnectionError

definition phase_of :: "session \<Rightarrow> nat \<Rightarrow> call_phase" where
  "phase_of \<sigma> i = (if i < length (calls \<sigma>) then calls \<sigma> ! i else Settled)"

fun session_step :: "bool \<Rightarrow> session \<Rightarrow> app_event \<Rightarrow> session" where
  "session_step eth \<sigma> ConnectClick =
     (case connectWallet_start eth (rendered \<sigma>) (app \<sigma>) of
        (s', issued) \<Rightarrow>
          if issued then
            \<sigma>\<lparr>app := s', calls := calls \<sigma> @ [AwaitingAccounts],
              requests := requests \<sigma> @ [EthRequestAccounts]\<rparr>
          else \<sigma>\<lparr>app := s', calls := calls \<sigma> @ [Settled]\<rparr>)"
| "session_step eth \<sigma> Render = \<sigma>\<lparr>rendered := app \<sigma>\<rparr>"
| "session_step eth \<sigma> (AccountsAnswer i accounts_resp) =
     (case phase_of \<sigma> i of
        AwaitingAccounts \<Rightarrow>
          (case connectWallet_accounts accounts_resp (app \<sigma>) of
             Inl s' \<Rightarrow> \<sigma>\<lparr>app := s', calls := (calls \<sigma>)[i := Settled]\<rparr>
           | Inr a \<Rightarrow> \<sigma>\<lparr>calls := (calls \<sigma>)[i := Resumed a]\<rparr>)
      | Resumed a \<Rightarrow> \<sigma>
      | Settled \<Rightarrow> \<sigma>)"
| "session_step eth \<sigma> (ConnectResume i chain_resp switch_resp add_resp web3Provider network_resp signer_resp) =
     (case phase_of \<sigma> i of
        Resumed a \<Rightarrow>
          (case connectWallet_rest a chain_resp switch_resp add_resp
                  web3Provider network_resp signer_resp (app \<sigma>) of
             (s', tr) \<Rightarrow>
               \<sigma>\<lparr>app := s', calls := (calls \<sigma>)[i := Settled], requests := requests \<sigma> @ tr\<rparr>)
      | AwaitingAccounts \<Rightarrow> \<sigma>
      | Settled \<Rightarrow> \<sigma>)"
| "session_step eth \<sigma> (AccountsChanged accounts web3Provider network_resp signer_resp) =
     \<sigma>\<lparr>app := handleAccountsChanged accounts web3Provider network_resp signer_resp (app \<sigma>)\<rparr>"
| "session_step eth \<sigma> (SwitchNetworkClick chain_resp switch_resp add_resp web3Provider network_resp signer_resp) =
     (case switchNetwork chain_resp switch_resp add_resp
             web3Provider network_resp signer_resp (rendered \<sigma>) (app \<sigma>) of
        (s', tr) \<Rightarrow> \<sigma>\<lparr>app := s', requests := requests \<sigma> @ tr\<rparr>)"
| "session_step eth \<sigma> DisconnectClick = \<sigma>\<lparr>app := disconnectWallet (app \<sigma>)\<rparr>"
| "session_step eth \<sigma> DismissConnectionError = \<sigma>\<lparr>app := (app \<sigma>)\<lparr>connectionError := []\<rparr>\<rparr>"

definition session_run :: "bool \<Rightarrow> app_event list \<Rightarrow> session" where
  "session_run eth evs = foldl (session_step eth) session_init evs"

text \<open>
  The calls of \<open>connectWallet\<close> in flight (their promise has not settled), and those
  whose \<open>eth_requestAccounts\<close> request is unanswered.
\<close>

definition in_flight :: "session \<Rightarrow> nat" where
  "in_flight \<sigma> = length (filter (\<lambda>c. c \<noteq> Settled) (calls \<sigma>))"

definition awaiting_accounts :: "session \<Rightarrow> nat" where
  "awaiting_accounts \<sigma> = length (filter (\<lambda>c. c = AwaitingAccounts) (calls \<sigma>))"

text \<open>
  A schedule in which the component is rendered at least once between any two calls of
  \<open>connectWallet\<close>; \<open>unrendered\<close> says whether a call has been made since the latest
  render.
\<close>

fun render_between_calls :: "bool \<Rightarrow> app_event list \<Rightarrow> bool" where
  "render_between_calls unrendered [] = True"
| "render_between_calls unrendered (ConnectClick # evs) =
     (\<not> unrendered \<and> render_between_calls True evs)"
| "render_between_calls unrendered (Render # evs) = render_between_calls False evs"
| "render_between_calls unrendered (ev # evs) = render_between_calls unrendered evs"

text \<open>
  What ties the calls in flight to the \<open>isConnecting\<close> flag; the render may lag
  behind the flag only after a call that has not been rendered yet.
\<close>

definition session_inv :: "bool \<Rightarrow> bool \<Rightarrow> session \<Rightarrow> bool" where
  "session_inv eth unrendered \<sigma> =
     (in_flight \<sigma> = (if isConnecting (app \<sigma>) then 1 else 0) \<and>
      (isConnecting (app \<sigma>) \<longrightarrow> eth) \<and>
      (isConnecting (app \<sigma>) \<and> \<not> isConnecting (rendered \<sigma>) \<longrightarrow> unrendered))"

section \<open>Content-address normalisation\<close>

lemma ipfs_not_gateway:
  "startsWith item ''ipfs://'' \<Longrightarrow> \<not> startsWith item ''https://gateway.pinata.cloud/ipfs/''"
  by (cases item) (auto simp: startsWith_def)

text \<open>
  C5.  The normalisation of a content address is a function of the item alone, defined
  on every string with no failing branch.  An item that already begins with the gateway
  base is returned unchanged; an item that begins with \<open>ipfs://\<close> loses these seven
  characters and gets the gateway base in front; every other item gets the gateway base
  in front.  The three spellings \<open>ipfs://QmX\<close>, \<open>QmX\<close> and the gateway URL of
  \<open>QmX\<close> have the same fetch location.
\<close>

theorem imageUrl_normalises:
  "(startsWith item gateway \<longrightarrow> imageUrl item = item) \<and>
   (startsWith item ''ipfs://'' \<longrightarrow> imageUrl item = gateway @ drop 7 item) \<and>
   (\<not> startsWith item gateway \<and> \<not> startsWith item ''ipfs://'' \<longrightarrow>
      imageUrl item = gateway @ item) \<and>
   imageUrl ''ipfs://QmX'' = gateway @ ''QmX'' \<and>
   imageUrl ''QmX'' = gateway @ ''QmX'' \<and>
   imageUrl (gateway @ ''QmX'') = gateway @ ''QmX''"
proof -
  have a: "startsWith item gateway \<longrightarrow> imageUrl item = item"
    by (simp add: imageUrl_def gateway_def)
  have b: "startsWith item ''ipfs://'' \<longrightarrow> imageUrl item = gateway @ drop 7 item"
    using ipfs_not_gateway [of item] by (simp add: imageUrl_def substring_def)
  have c: "\<not> startsWith item gateway \<and> \<not> startsWith item ''ipfs://'' \<longrightarrow>
      imageUrl item = gateway @ item"
    by (simp add: imageUrl_def gateway_def)
  have d: "imageUrl ''ipfs://QmX'' = gateway @ ''QmX''"
    by (simp add: imageUrl_def startsWith_def substring_def)
  have e: "imageUrl ''QmX'' = gateway @ ''QmX''"
    by (simp add: imageUrl_def startsWith_def)
  have f: "imageUrl (gateway @ ''QmX'') = gateway @ ''QmX''"
    by (simp add: imageUrl_def startsWith_def gateway_def)
  from a b c d e f show ?thesis by blast
qed

theorem imageUrl_normalises_witness:
  "startsWith (gateway @ ''QmX'') gateway \<and>
   imageUrl (gateway @ ''QmX'') = gateway @ ''QmX'' \<and>
   startsWith ''ipfs://QmX'' ''ipfs://'' \<and>
   imageUrl ''ipfs://QmX'' = gateway @ drop 7 ''ipfs://QmX'' \<and>
   \<not> startsWith ''QmX'' gateway \<and> \<not> startsWith ''QmX'' ''ipfs://'' \<and>
   imageUrl ''QmX'' = gateway @ ''QmX''"
proof -
  have h1: "startsWith (gateway @ ''QmX'') gateway"
    by (simp add: startsWith_def)
  have h2: "startsWith ''ipfs://QmX'' ''ipfs://''"
    by (simp add: startsWith_def)
  have h3: "\<not> startsWith ''QmX'' gateway \<and> \<not> startsWith ''QmX'' ''ipfs://''"
    by (simp add: startsWith_def gateway_def)
  show ?thesis
    using h1 h2 h3
      imageUrl_normalises [of "gateway @ ''QmX''"]
      imageUrl_normalises [of "''ipfs://QmX''"]
      imageUrl_normalises [of "''QmX''"]
    by blast
qed

section \<open>Reading a file list\<close>

text \<open>
  C4, as stated, at a concrete input.  The claim says that a target with zero registered
  files gives an empty sequence and no error.  With the contract at hand and the
  account \<open>0xA\<close>, a read that returns the empty array leaves the message
  \<open>No files found for this address\<close> in the \<open>error\<close> state, which the component
  renders in its error alert.
\<close>

theorem getdata_empty_sets_error_counterexample:
  "error (getdata True ''0xA'' None (Inr (Some [])) display_init) =
     ''No files found for this address'' \<and>
   error (getdata True ''0xA'' None (Inr (Some [])) display_init) \<noteq> [] \<and>
   data (getdata True ''0xA'' None (Inr (Some [])) display_init) = []"
  by (simp add: getdata_def targetAddressOf_def str_or_def display_init_def msg_no_files_def)

text \<open>
  C4, amended.  For every read with a contract and a non-empty target address: when the
  registry call throws, the list is emptied, the \<open>error\<close> state holds the
  no-access message and the address being viewed is left as it was; when the registry
  returns the empty array, the list is emptied, the \<open>error\<close> state holds the
  different message \<open>No files found for this address\<close> and the address being viewed
  becomes the target.  The two messages differ, so the two resulting states are never
  equal.
\<close>

theorem getdata_denied_differs_from_empty:
  assumes "has_contract" and "targetAddressOf address (viewAddress s) acct \<noteq> []"
  shows
   "error (getdata has_contract acct address (Inl e) s) = msg_no_access \<and>
    data (getdata has_contract acct address (Inl e) s) = [] \<and>
    currentViewingAddress (getdata has_contract acct address (Inl e) s) =
      currentViewingAddress s \<and>
    error (getdata has_contract acct address (Inr (Some [])) s) = msg_no_files \<and>
    data (getdata has_contract acct address (Inr (Some [])) s) = [] \<and>
    currentViewingAddress (getdata has_contract acct address (Inr (Some [])) s) =
      targetAddressOf address (viewAddress s) acct \<and>
    msg_no_access \<noteq> msg_no_files \<and>
    getdata has_contract acct address (Inl e) s \<noteq>
      getdata has_contract acct address (Inr (Some [])) s"
proof -
  let ?denied = "getdata has_contract acct address (Inl e) s"
  let ?empty = "getdata has_contract acct address (Inr (Some [])) s"
  have m: "msg_no_access \<noteq> msg_no_files"
    by (simp add: msg_no_access_def msg_no_files_def)
  have d: "?denied =
      s\<lparr>loading := True, error := [], error := msg_no_access, data := [], loading := False\<rparr>"
    using assms by (simp add: getdata_def Let_def)
  have z: "?empty =
      s\<lparr>loading := True, error := [], data := [], error := msg_no_files,
        currentViewingAddress := targetAddressOf address (viewAddress s) acct,
        loading := False\<rparr>"
    using assms by (simp add: getdata_def Let_def)
  have ne: "?denied \<noteq> ?empty"
  proof
    assume "?denied = ?empty"
    then have "error ?denied = error ?empty" by simp
    then show False using m by (simp add: d z)
  qed
  show ?thesis using m ne by (simp add: d z)
qed

theorem getdata_denied_differs_from_empty_witness:
  "targetAddressOf (Some ''0xB'') (viewAddress display_init) ''0xA'' \<noteq> [] \<and>
   error (getdata True ''0xA'' (Some ''0xB'') (Inl (JsError None ''revert'')) display_init) =
     msg_no_access \<and>
   error (getdata True ''0xA'' (Some ''0xB'') (Inr (Some [])) display_init) = msg_no_files \<and>
   currentViewingAddress (getdata True ''0xA'' (Some ''0xB'') (Inr (Some [])) display_init) =
     ''0xB'' \<and>
   getdata True ''0xA'' (Some ''0xB'') (Inl (JsError None ''revert'')) display_init \<noteq>
     getdata True ''0xA'' (Some ''0xB'') (Inr (Some [])) display_init"
proof -
  have t: "targetAddressOf (Some ''0xB'') (viewAddress display_init) ''0xA'' = ''0xB''"
    by (simp add: targetAddressOf_def str_or_def)
  have h: "targetAddressOf (Some ''0xB'') (viewAddress display_init) ''0xA'' \<noteq> []"
    by (simp add: t)
  show ?thesis
    using h t
      getdata_denied_differs_from_empty
        [OF TrueI h, of "JsError None ''revert''"]
    by simp
qed

section \<open>Switching the network\<close>

text \<open>
  C1, as stated, at a concrete input.  The wallet is on chain \<open>0x1\<close>, answers the
  switch request with error code 4902 and accepts the add request.  The function then
  returns normally after three requests: the chain query, the switch and the add.  No
  switch request follows the add request.
\<close>

theorem ensureCorrectNetwork_no_retry_counterexample:
  "ensureCorrectNetwork (Inr ''0x1'') (Inl (JsError (Some 4902) ''Unrecognized chain ID''))
     (Inr ()) =
     (Inr (), [EthChainId, WalletSwitchEthereumChain ''0x539'',
               WalletAddEthereumChain HARDHAT_NETWORK_CONFIG]) \<and>
   \<not> switch_follows_add (snd (ensureCorrectNetwork (Inr ''0x1'')
         (Inl (JsError (Some 4902) ''Unrecognized chain ID'')) (Inr ())))"
  by (simp add: ensureCorrectNetwork_def HARDHAT_CHAIN_ID_def)

text \<open>
  C1, amended.  When the chain identifier read from the wallet differs from \<open>0x539\<close>,
  the requests issued are the chain query, then the switch request for \<open>0x539\<close>, and
  then the add request exactly when the switch was answered with error code 4902; so an
  add request is never issued before the switch request.  The add request carries the
  chain identifier \<open>0x539\<close>, the currency Ethereum/ETH with 18 decimals and the local
  RPC endpoint.  After a successful add the function returns normally with nothing
  further requested.
\<close>

theorem ensureCorrectNetwork_switch_then_add:
  assumes "chain \<noteq> HARDHAT_CHAIN_ID"
  shows
   "snd (ensureCorrectNetwork (Inr chain) switch_resp add_resp) =
      [EthChainId, WalletSwitchEthereumChain HARDHAT_CHAIN_ID] @
      (if unknown_network switch_resp then [WalletAddEthereumChain HARDHAT_NETWORK_CONFIG]
       else []) \<and>
    (unknown_network switch_resp \<and> add_resp = Inr () \<longrightarrow>
       ensureCorrectNetwork (Inr chain) switch_resp add_resp =
         (Inr (), [EthChainId, WalletSwitchEthereumChain HARDHAT_CHAIN_ID,
                   WalletAddEthereumChain HARDHAT_NETWORK_CONFIG])) \<and>
    HARDHAT_CHAIN_ID = ''0x539'' \<and>
    chainId HARDHAT_NETWORK_CONFIG = ''0x539'' \<and>
    nativeCurrency HARDHAT_NETWORK_CONFIG =
      \<lparr>currency_name = ''Ethereum'', currency_symbol = ''ETH'', currency_decimals = 18\<rparr> \<and>
    rpcUrls HARDHAT_NETWORK_CONFIG = [''http://127.0.0.1:8545'']"
  using assms
  by (auto simp: ensureCorrectNetwork_def unknown_network_def HARDHAT_NETWORK_CONFIG_def
      HARDHAT_CHAIN_ID_def split: sum.splits)

theorem ensureCorrectNetwork_switch_then_add_witness:
  "''0x1'' \<noteq> HARDHAT_CHAIN_ID \<and>
   unknown_network (Inl (JsError (Some 4902) ''Unrecognized chain ID'')) \<and>
   ensureCorrectNetwork (Inr ''0x1'') (Inl (JsError (Some 4902) ''Unrecognized chain ID''))
     (Inr ()) =
     (Inr (), [EthChainId, WalletSwitchEthereumChain HARDHAT_CHAIN_ID,
               WalletAddEthereumChain HARDHAT_NETWORK_CONFIG])"
proof -
  have h: "''0x1'' \<noteq> HARDHAT_CHAIN_ID"
    by (simp add: HARDHAT_CHAIN_ID_def)
  have u: "unknown_network (Inl (JsError (Some 4902) ''Unrecognized chain ID''))"
    by (simp add: unknown_network_def)
  show ?thesis
    using h u
      ensureCorrectNetwork_switch_then_add
        [OF h, of "Inl (JsError (Some 4902) ''Unrecognized chain ID'')" "Inr ()"]
    by blast
qed

section \<open>Provider initialisation on the wrong network\<close>

text \<open>
  C9.  When \<open>getNetwork()\<close> reports a chain identifier other than 1337,
  \<open>initializeProvider\<close> sets the wrong-network flag and the account and changes
  nothing else: the stored contract and provider are the ones that were in the state
  before, also when they came from an earlier run on the right network.
\<close>

theorem initializeProvider_wrong_network_frame:
  assumes "c \<noteq> 1337"
  shows
   "initializeProvider userAccount web3Provider (Inr c) signer_resp s =
      s\<lparr>wrongNetwork := True, account := userAccount\<rparr> \<and>
    contract (initializeProvider userAccount web3Provider (Inr c) signer_resp s) = contract s \<and>
    provider (initializeProvider userAccount web3Provider (Inr c) signer_resp s) = provider s \<and>
    wrongNetwork (initializeProvider userAccount web3Provider (Inr c) signer_resp s) \<and>
    account (initializeProvider userAccount web3Provider (Inr c) signer_resp s) = userAccount"
  using assms by (simp add: initializeProvider_def)

theorem initializeProvider_wrong_network_frame_witness:
  "(1::int) \<noteq> 1337 \<and>
   contract (initializeProvider ''0xB'' (BrowserProvider 2) (Inr 1) (Inr ''0xB'')
     (initializeProvider ''0xA'' (BrowserProvider 1) (Inr 1337) (Inr ''0xA'') app_init)) =
     Some (Contract CONTRACT_ADDRESS ''0xA'') \<and>
   provider (initializeProvider ''0xB'' (BrowserProvider 2) (Inr 1) (Inr ''0xB'')
     (initializeProvider ''0xA'' (BrowserProvider 1) (Inr 1337) (Inr ''0xA'') app_init)) =
     Some (BrowserProvider 1) \<and>
   wrongNetwork (initializeProvider ''0xB'' (BrowserProvider 2) (Inr 1) (Inr ''0xB'')
     (initializeProvider ''0xA'' (BrowserProvider 1) (Inr 1337) (Inr ''0xA'') app_init)) \<and>
   account (initializeProvider ''0xB'' (BrowserProvider 2) (Inr 1) (Inr ''0xB'')
     (initializeProvider ''0xA'' (BrowserProvider 1) (Inr 1337) (Inr ''0xA'') app_init)) = ''0xB''"
proof -
  have h: "(1::int) \<noteq> 1337" by simp
  have c0: "contract (initializeProvider ''0xA'' (BrowserProvider 1) (Inr 1337) (Inr ''0xA'')
      app_init) = Some (Contract CONTRACT_ADDRESS ''0xA'')"
    by (simp add: initializeProvider_def)
  have p0: "provider (initializeProvider ''0xA'' (BrowserProvider 1) (Inr 1337) (Inr ''0xA'')
      app_init) = Some (BrowserProvider 1)"
    by (simp add: initializeProvider_def)
  show ?thesis
    using h c0 p0
      initializeProvider_wrong_network_frame
        [OF h, of "''0xB''" "BrowserProvider 2" "Inr ''0xB''"
           "initializeProvider ''0xA'' (BrowserProvider 1) (Inr 1337) (Inr ''0xA'') app_init"]
    by simp
qed

section \<open>The upload form\<close>

subsection \<open>Timer callbacks\<close>





declare timerTicks.simps(2) [simp del]





subsection \<open>The log of a submission\<close>

lemma progress_of_append [simp]: "progress_of (a @ b) = progress_of a @ progress_of b"
  by (induction a rule: progress_of.induct) auto

lemma calls_of_append [simp]: "calls_of (a @ b) = calls_of a @ calls_of b"
  by (induction a rule: calls_of.induct) auto

lemma progress_of_map_Progress [simp]: "progress_of (map Progress xs) = xs"
  by (induction xs) auto

lemma calls_of_map_Progress [simp]: "calls_of (map Progress xs) = []"
  by (induction xs) auto

text \<open>The log of a run on a selected file, by the outcome of its requests.\<close>

lemma handleSubmit_log:
  assumes "file_st s = Some f"
  shows
   "snd (handleSubmit has_contract acct ticks pin_resp ticks2 add_resp s) =
     [Progress 0, Call (PinFile f)] @
     map Progress (fst (timerTicks ticks True (timers s) 0)) @
     (case pin_resp of
        Inl e \<Rightarrow> [Progress 0]
      | Inr h \<Rightarrow>
          Progress 95 #
          (if has_contract \<and> acct \<noteq> [] then
             Call (ContractAdd acct (gateway @ h)) #
             map Progress
               (fst (timerTicks ticks2 False (snd (snd (timerTicks ticks True (timers s) 0))) 95)) @
             [Progress (case add_resp of Inl e \<Rightarrow> 0 | Inr t \<Rightarrow> 100)]
           else [Progress 0]))"
  using assms
  by (simp add: handleSubmit_def Let_def gateway_def split: sum.splits prod.splits)


lemma handleSubmit_calls:
  "calls_of (snd (handleSubmit has_contract acct ticks pin_resp ticks2 add_resp s)) =
     (case file_st s of
        None \<Rightarrow> []
      | Some f \<Rightarrow>
          PinFile f #
          (case pin_resp of
             Inl e \<Rightarrow> []
           | Inr h \<Rightarrow> if has_contract \<and> acct \<noteq> [] then [ContractAdd acct (gateway @ h)] else []))"
proof (cases "file_st s")
  case None
  then show ?thesis by (simp add: handleSubmit_def)
next
  case (Some f)
  then show ?thesis by (simp add: handleSubmit_log split: sum.splits)
qed

lemma handleSubmit_file_st:
  "file_st (fst (handleSubmit has_contract acct ticks pin_resp ticks2 add_resp s)) = file_st s"
  by (simp add: handleSubmit_def Let_def split: option.splits sum.splits prod.splits)

lemma pin_then_add_Cons:
  "valid_file g \<Longrightarrow> pin_then_add cs \<Longrightarrow> pin_then_add (PinFile g # cs)"
proof (cases cs)
  case Nil
  assume "valid_file g"
  with Nil show ?thesis by simp
next
  case (Cons c cs')
  assume "valid_file g" "pin_then_add cs"
  with Cons show ?thesis by (cases c) simp_all
qed

lemma pin_then_add_append:
  "pin_then_add xs \<Longrightarrow> pin_then_add ys \<Longrightarrow> pin_then_add (xs @ ys)"
proof (induction xs rule: pin_then_add.induct)
  case 1
  then show ?case by simp
next
  case (2 g a u cs)
  then show ?case by simp
qed (simp_all add: pin_then_add_Cons)

lemma pin_then_add_valid:
  "pin_then_add cs \<Longrightarrow> PinFile f \<in> set cs \<Longrightarrow> valid_file f"
  by (induction cs rule: pin_then_add.induct) auto

lemma handleFileSelection_file_st:
  "file_st (handleFileSelection f s) = (if valid_file f then Some f else file_st s)"
  by (simp add: handleFileSelection_def valid_file_def)

lemma timerTick_file_st: "file_st (fst (timerTick s)) = file_st s"
  by (simp add: timerTick_def split: prod.splits)

lemma timerTick_calls: "calls_of (snd (timerTick s)) = []"
  by (simp add: timerTick_def split: prod.splits)

lemma timerTick_below_100:
  "(\<forall>p \<in> set (progress_of (snd (timerTick s))). p < 100) \<and>
   (uploadProgress s \<le> 100 \<longrightarrow> uploadProgress (fst (timerTick s)) \<le> 100)"
  by (simp add: timerTick_def progressCallback_def)

lemma upload_step_inv: "upload_inv c \<Longrightarrow> upload_inv (upload_step c ev)"
proof (cases c)
  case (Pair s l)
  assume inv: "upload_inv c"
  show ?thesis
  proof (cases ev)
    case (Select f)
    with Pair inv show ?thesis
      by (simp add: upload_inv_def handleFileSelection_file_st)
  next
    case (Submit has_contract acct ticks pin_resp ticks2 add_resp)
    obtain s' l' where hs:
      "handleSubmit has_contract acct ticks pin_resp ticks2 add_resp s = (s', l')"
      by (cases "handleSubmit has_contract acct ticks pin_resp ticks2 add_resp s")
    have fs: "file_st s' = file_st s"
      using handleSubmit_file_st [of has_contract acct ticks pin_resp ticks2 add_resp s] hs by simp
    have cl: "pin_then_add (calls_of l')"
      using handleSubmit_calls [of has_contract acct ticks pin_resp ticks2 add_resp s] hs inv Pair
      by (auto simp: upload_inv_def split: option.splits sum.splits)
    show ?thesis
      using Pair Submit hs fs cl inv
      by (simp add: upload_inv_def pin_then_add_append)
  next
    case Tick
    obtain s' l' where tt: "timerTick s = (s', l')"
      by (cases "timerTick s")
    have "file_st s' = file_st s" "calls_of l' = []"
      using timerTick_file_st [of s] timerTick_calls [of s] tt by simp_all
    with Pair Tick tt inv show ?thesis
      by (simp add: upload_inv_def)
  next
    case Remove
    with Pair inv show ?thesis by (simp add: upload_inv_def removeFile_def)
  next
    case ResetForm
    with Pair inv show ?thesis by (simp add: upload_inv_def resetForm_def)
  next
    case DismissError
    with Pair inv show ?thesis by (simp add: upload_inv_def)
  qed
qed

lemma foldl_upload_inv: "upload_inv c \<Longrightarrow> upload_inv (foldl upload_step c evs)"
  by (induction evs arbitrary: c) (simp_all add: upload_step_inv)

lemma upload_run_inv: "upload_inv (upload_run evs)"
  unfolding upload_run_def
  by (rule foldl_upload_inv) (simp add: upload_inv_def upload_init_def)

lemma sample_form_eq:
  "sample_form = upload_init\<lparr>file_st := Some sample_file, fileName := ''a.png'', upload_error := []\<rparr>"
  by (simp add: sample_form_def handleFileSelection_def sample_file_def allowedTypes_def maxSize_def)

subsection \<open>Validation\<close>

text \<open>
  C6.  A selected file whose declared type is not one of the four image types, or whose
  size exceeds 10 MiB, is rejected by \<open>handleFileSelection\<close>: an error message is
  set and nothing else in the form changes, so the file never becomes the selected one.
  Selecting it in a fresh form and submitting sends nothing and reports an error.  In
  every sequence of selections, submissions, timer callbacks, removals and resets, the
  file is never pinned, and every request sent is the pin of an accepted file or the
  registration that follows such a pin.
\<close>

theorem upload_invalid_file_rejected:
  assumes "file_type f \<notin> set allowedTypes \<or> file_size f > maxSize"
  shows
   "upload_error (handleFileSelection f s) \<noteq> [] \<and>
    handleFileSelection f s = s\<lparr>upload_error := upload_error (handleFileSelection f s)\<rparr> \<and>
    snd (upload_run [Select f, Submit has_contract acct ticks pin_resp ticks2 add_resp]) = [] \<and>
    upload_error (fst (upload_run [Select f, Submit has_contract acct ticks pin_resp ticks2 add_resp]))
      \<noteq> [] \<and>
    PinFile f \<notin> set (calls_of (snd (upload_run evs))) \<and>
    pin_then_add (calls_of (snd (upload_run evs)))"
proof -
  have nv: "\<not> valid_file f" using assms by (auto simp: valid_file_def)
  have a: "upload_error (handleFileSelection f s) \<noteq> []"
    using assms by (auto simp: handleFileSelection_def)
  have b: "handleFileSelection f s = s\<lparr>upload_error := upload_error (handleFileSelection f s)\<rparr>"
    using assms by (auto simp: handleFileSelection_def)
  have n: "file_st (handleFileSelection f upload_init) = None"
    using nv by (simp add: handleFileSelection_file_st upload_init_def)
  have c: "upload_run [Select f, Submit has_contract acct ticks pin_resp ticks2 add_resp] =
      ((handleFileSelection f upload_init)\<lparr>upload_error := ''Please select a file first''\<rparr>, [])"
    using n by (simp add: upload_run_def handleSubmit_def)
  have p: "pin_then_add (calls_of (snd (upload_run evs)))"
    using upload_run_inv [of evs] by (simp add: upload_inv_def)
  have d: "PinFile f \<notin> set (calls_of (snd (upload_run evs)))"
    using pin_then_add_valid [OF p] nv by blast
  show ?thesis using a b c d p by simp
qed

theorem upload_invalid_file_rejected_witness:
  "file_size \<lparr>file_name = ''big.png'', file_type = ''image/png'', file_size = 10485761\<rparr>
     > maxSize \<and>
   file_type \<lparr>file_name = ''a.pdf'', file_type = ''application/pdf'', file_size = 10\<rparr>
     \<notin> set allowedTypes \<and>
   upload_error (handleFileSelection
     \<lparr>file_name = ''big.png'', file_type = ''image/png'', file_size = 10485761\<rparr> sample_form)
     = ''File size must be less than 10MB'' \<and>
   file_st (handleFileSelection
     \<lparr>file_name = ''big.png'', file_type = ''image/png'', file_size = 10485761\<rparr> sample_form)
     = Some sample_file \<and>
   snd (upload_run
     [Select \<lparr>file_name = ''big.png'', file_type = ''image/png'', file_size = 10485761\<rparr>,
      Submit True ''0xA'' [True] (Inr ''QmA'') [] (Inr (Tx ''0x02'' (Inr ())))]) = [] \<and>
   snd (upload_run
     [Select \<lparr>file_name = ''a.pdf'', file_type = ''application/pdf'', file_size = 10\<rparr>,
      Submit True ''0xA'' [True] (Inr ''QmA'') [] (Inr (Tx ''0x02'' (Inr ())))]) = [] \<and>
   PinFile \<lparr>file_name = ''big.png'', file_type = ''image/png'', file_size = 10485761\<rparr>
     \<notin> set (calls_of (snd (upload_run
       [Select sample_file,
        Select \<lparr>file_name = ''big.png'', file_type = ''image/png'', file_size = 10485761\<rparr>,
        Submit True ''0xA'' [True] (Inr ''QmA'') [] (Inr (Tx ''0x02'' (Inr ())))])))"
proof -
  let ?big = "\<lparr>file_name = ''big.png'', file_type = ''image/png'', file_size = 10485761\<rparr>"
  let ?pdf = "\<lparr>file_name = ''a.pdf'', file_type = ''application/pdf'', file_size = 10\<rparr>"
  have h1: "file_size ?big > maxSize"
    by (simp add: maxSize_def)
  have h2: "file_type ?pdf \<notin> set allowedTypes"
    by (simp add: allowedTypes_def)
  have e: "upload_error (handleFileSelection ?big sample_form) = ''File size must be less than 10MB''"
    by (simp add: handleFileSelection_def allowedTypes_def maxSize_def)
  have f: "file_st (handleFileSelection ?big sample_form) = Some sample_file"
    by (simp add: handleFileSelection_def allowedTypes_def maxSize_def sample_form_eq)
  show ?thesis
    using h1 h2 e f
      upload_invalid_file_rejected [OF disjI2, OF h1, of sample_form True "''0xA''" "[True]"
        "Inr ''QmA''" "[]" "Inr (Tx ''0x02'' (Inr ()))"
        "[Select sample_file, Select ?big,
          Submit True ''0xA'' [True] (Inr ''QmA'') [] (Inr (Tx ''0x02'' (Inr ())))]"]
      upload_invalid_file_rejected [OF disjI1, OF h2, of sample_form True "''0xA''" "[True]"
        "Inr ''QmA''" "[]" "Inr (Tx ''0x02'' (Inr ()))" "[]"]
    by blast
qed

subsection \<open>Registration fails after pinning\<close>




subsection \<open>Waiting for confirmation\<close>

lemma handleSubmit_never_waits:
  "TxWait h \<notin> set (calls_of (snd (handleSubmit has_contract acct ticks pin_resp ticks2 add_resp s)))"
  by (simp add: handleSubmit_calls split: option.splits sum.splits)

lemma trim_empty_0xB: "\<not> trim_empty ''0xB''"
  by (simp add: trim_empty_def space1_def space3_def)

lemma shareAccess_waits:
  assumes "has_contract" and "acct \<noteq> []" and "\<not> trim_empty targetAddress"
  shows "take 2 (snd (shareAccess has_contract acct targetAddress (Inr transaction) access_resp s)) =
      [ContractAllow targetAddress, TxWait (tx_hash transaction)] \<and>
    (wait_outcome transaction = Inl e \<longrightarrow>
      successMessage (fst (shareAccess has_contract acct targetAddress (Inr transaction) access_resp s)) =
        successMessage s \<and>
      error (fst (shareAccess has_contract acct targetAddress (Inr transaction) access_resp s)) =
        ''Failed to share access. Please try again.'')"
  using assms
  by (auto simp: shareAccess_def Let_def loadSharedAccess_def split: sum.splits prod.splits)

lemma revokeAccess_waits:
  assumes "has_contract" and "acct \<noteq> []"
  shows "take 2 (snd (revokeAccess has_contract acct targetAddress (Inr transaction) access_resp s)) =
      [ContractDisallow targetAddress, TxWait (tx_hash transaction)] \<and>
    (wait_outcome transaction = Inl e \<longrightarrow>
      successMessage (fst (revokeAccess has_contract acct targetAddress (Inr transaction) access_resp s)) =
        successMessage s \<and>
      error (fst (revokeAccess has_contract acct targetAddress (Inr transaction) access_resp s)) =
        ''Failed to revoke access. Please try again.'')"
  using assms
  by (auto simp: revokeAccess_def Let_def loadSharedAccess_def split: sum.splits prod.splits)

text \<open>
  C3, at the failing input.  The sample picture is selected, pinning returns \<open>QmA\<close>
  and \<open>contract.add\<close> resolves to a transaction that is never mined.
  \<open>handleSubmit\<close> sends the pin and the registration, never waits for the
  transaction, and reports progress 100 with the success message.  Given the same
  transaction by \<open>contract.allow\<close> and \<open>contract.disallow\<close>, \<open>shareAccess\<close> and
  \<open>revokeAccess\<close> wait for it and report the failure.
\<close>

theorem handleSubmit_add_not_awaited:
  "handleSubmit True ''0xA'' [] (Inr ''QmA'') [] (Inr reverted_tx) sample_form =
     (sample_form\<lparr>uploadProgress := 100, success := ''File uploaded successfully to blockchain!''\<rparr>,
      [Progress 0, Call (PinFile sample_file), Progress 95,
       Call (ContractAdd ''0xA'' ''https://gateway.pinata.cloud/ipfs/QmA''), Progress 100]) \<and>
   wait_outcome reverted_tx = Inl (JsError None ''transaction reverted'') \<and>
   shareAccess True ''0xA'' ''0xB'' (Inr reverted_tx) (Inr []) display_init =
     (display_init\<lparr>error := ''Failed to share access. Please try again.''\<rparr>,
      [ContractAllow ''0xB'', TxWait ''0x01'']) \<and>
   revokeAccess True ''0xA'' ''0xB'' (Inr reverted_tx) (Inr []) display_init =
     (display_init\<lparr>error := ''Failed to revoke access. Please try again.''\<rparr>,
      [ContractDisallow ''0xB'', TxWait ''0x01''])"
proof -
  have a: "handleSubmit True ''0xA'' [] (Inr ''QmA'') [] (Inr reverted_tx) sample_form =
     (sample_form\<lparr>uploadProgress := 100, success := ''File uploaded successfully to blockchain!''\<rparr>,
      [Progress 0, Call (PinFile sample_file), Progress 95,
       Call (ContractAdd ''0xA'' ''https://gateway.pinata.cloud/ipfs/QmA''), Progress 100])"
    by (simp add: handleSubmit_def sample_form_eq msg_upload_ok_def upload_init_def)
  have b: "wait_outcome reverted_tx = Inl (JsError None ''transaction reverted'')"
    by (simp add: reverted_tx_def)
  have c: "shareAccess True ''0xA'' ''0xB'' (Inr reverted_tx) (Inr []) display_init =
     (display_init\<lparr>error := ''Failed to share access. Please try again.''\<rparr>,
      [ContractAllow ''0xB'', TxWait ''0x01''])"
    by (simp add: shareAccess_def reverted_tx_def trim_empty_0xB display_init_def)
  have d: "revokeAccess True ''0xA'' ''0xB'' (Inr reverted_tx) (Inr []) display_init =
     (display_init\<lparr>error := ''Failed to revoke access. Please try again.''\<rparr>,
      [ContractDisallow ''0xB'', TxWait ''0x01''])"
    by (simp add: revokeAccess_def reverted_tx_def display_init_def)
  show ?thesis using a b c d by blast
qed

theorem handleSubmit_add_not_awaited_witness:
  "success (fst (handleSubmit True ''0xA'' [] (Inr ''QmA'') [] (Inr reverted_tx) sample_form)) =
     msg_upload_ok \<and>
   uploadProgress (fst (handleSubmit True ''0xA'' [] (Inr ''QmA'') [] (Inr reverted_tx)
     sample_form)) = 100 \<and>
   TxWait (tx_hash reverted_tx) \<notin>
     set (calls_of (snd (handleSubmit True ''0xA'' [] (Inr ''QmA'') [] (Inr reverted_tx)
       sample_form))) \<and>
   TxWait (tx_hash reverted_tx) \<in>
     set (snd (shareAccess True ''0xA'' ''0xB'' (Inr reverted_tx) (Inr []) display_init)) \<and>
   TxWait (tx_hash reverted_tx) \<in>
     set (snd (revokeAccess True ''0xA'' ''0xB'' (Inr reverted_tx) (Inr []) display_init))"
  using handleSubmit_add_not_awaited
  by (simp add: reverted_tx_def msg_upload_ok_def)

subsection \<open>Progress\<close>




section \<open>Connecting the wallet\<close>

lemma initializeProvider_isConnecting:
  "isConnecting (initializeProvider a w network_resp signer_resp s) = isConnecting s"
  by (simp add: initializeProvider_def Let_def split: sum.splits)

lemma handleAccountsChanged_isConnecting:
  "isConnecting (handleAccountsChanged accounts w network_resp signer_resp s) = isConnecting s"
  by (simp add: handleAccountsChanged_def initializeProvider_isConnecting split: list.splits)

lemma switchNetwork_isConnecting:
  "isConnecting (fst (switchNetwork chain_resp switch_resp add_resp w network_resp signer_resp r s)) =
     isConnecting s"
  by (simp add: switchNetwork_def initializeProvider_isConnecting split: prod.splits sum.splits)

lemma connectWallet_rest_isConnecting:
  "\<not> isConnecting (fst (connectWallet_rest a chain_resp switch_resp add_resp w network_resp signer_resp s))"
  by (simp add: connectWallet_rest_def connectWallet_finally_def split: prod.splits sum.splits)

lemma connectWallet_accounts_Inl:
  "connectWallet_accounts accounts_resp s = Inl s' \<Longrightarrow> \<not> isConnecting s'"
  by (auto simp: connectWallet_accounts_def connectWallet_finally_def split: sum.splits list.splits)

lemma filter_update_length:
  "i < length xs \<Longrightarrow>
   length (filter P (xs[i := c])) + (if P (xs ! i) then 1 else 0) =
   length (filter P xs) + (if P c then 1 else 0)"
proof (induction xs arbitrary: i)
  case Nil
  then show ?case by simp
next
  case (Cons x xs)
  show ?case
  proof (cases i)
    case 0
    then show ?thesis by simp
  next
    case (Suc j)
    with Cons.prems have "j < length xs" by simp
    from Cons.IH [OF this] Suc show ?thesis by simp
  qed
qed

lemma in_flight_settle:
  assumes "i < length (calls \<sigma>)" and "calls \<sigma> ! i \<noteq> Settled"
  shows "length (filter (\<lambda>c. c \<noteq> Settled) ((calls \<sigma>)[i := Settled])) + 1 = in_flight \<sigma>"
  using filter_update_length [OF assms(1), of "\<lambda>c. c \<noteq> Settled" Settled] assms(2)
  by (simp add: in_flight_def)

lemma in_flight_resume:
  assumes "i < length (calls \<sigma>)" and "calls \<sigma> ! i \<noteq> Settled"
  shows "length (filter (\<lambda>c. c \<noteq> Settled) ((calls \<sigma>)[i := Resumed a])) = in_flight \<sigma>"
  using filter_update_length [OF assms(1), of "\<lambda>c. c \<noteq> Settled" "Resumed a"] assms(2)
  by (simp add: in_flight_def)

lemma phase_of_index:
  "phase_of \<sigma> i \<noteq> Settled \<Longrightarrow> i < length (calls \<sigma>) \<and> calls \<sigma> ! i = phase_of \<sigma> i"
  by (simp add: phase_of_def split: if_splits)

lemma session_step_inv:
  assumes inv: "session_inv eth u \<sigma>" and sched: "render_between_calls u (ev # evs)"
  shows "\<exists>u'. session_inv eth u' (session_step eth \<sigma> ev) \<and> render_between_calls u' evs"
proof (cases ev)
  case ConnectClick
  with sched have nu: "\<not> u" and rest: "render_between_calls True evs" by simp_all
  from inv nu have lag: "isConnecting (app \<sigma>) \<longrightarrow> isConnecting (rendered \<sigma>)"
    by (auto simp: session_inv_def)
  have "session_inv eth True (session_step eth \<sigma> ConnectClick)"
    using inv lag
    by (auto simp: session_inv_def in_flight_def connectWallet_start_def)
  with rest ConnectClick show ?thesis by blast
next
  case Render
  with sched have rest: "render_between_calls False evs" by simp
  have "session_inv eth False (session_step eth \<sigma> Render)"
    using inv by (simp add: session_inv_def in_flight_def)
  with rest Render show ?thesis by blast
next
  case (AccountsAnswer i accounts_resp)
  with sched have rest: "render_between_calls u evs" by simp
  have "session_inv eth u (session_step eth \<sigma> (AccountsAnswer i accounts_resp))"
  proof (cases "phase_of \<sigma> i")
    case AwaitingAccounts
    then have ix: "i < length (calls \<sigma>)" "calls \<sigma> ! i \<noteq> Settled"
      using phase_of_index [of \<sigma> i] by simp_all
    show ?thesis
    proof (cases "connectWallet_accounts accounts_resp (app \<sigma>)")
      case (Inl s')
      then have nc: "\<not> isConnecting s'" by (rule connectWallet_accounts_Inl)
      have "in_flight \<sigma> \<le> 1" using inv by (simp add: session_inv_def)
      with in_flight_settle [OF ix]
      have "length (filter (\<lambda>c. c \<noteq> Settled) ((calls \<sigma>)[i := Settled])) = 0" by arith
      with AwaitingAccounts Inl nc show ?thesis
        by (simp add: session_inv_def in_flight_def)
    next
      case (Inr a)
      with AwaitingAccounts inv in_flight_resume [OF ix, of a] show ?thesis
        by (simp add: session_inv_def in_flight_def)
    qed
  next
    case (Resumed a)
    with inv show ?thesis by simp
  next
    case Settled
    with inv show ?thesis by simp
  qed
  with rest AccountsAnswer show ?thesis by blast
next
  case (ConnectResume i chain_resp switch_resp add_resp w network_resp signer_resp)
  with sched have rest: "render_between_calls u evs" by simp
  have "session_inv eth u (session_step eth \<sigma>
      (ConnectResume i chain_resp switch_resp add_resp w network_resp signer_resp))"
  proof (cases "phase_of \<sigma> i")
    case (Resumed a)
    then have ix: "i < length (calls \<sigma>)" "calls \<sigma> ! i \<noteq> Settled"
      using phase_of_index [of \<sigma> i] by simp_all
    obtain s' tr where r: "connectWallet_rest a chain_resp switch_resp add_resp w
        network_resp signer_resp (app \<sigma>) = (s', tr)"
      by (cases "connectWallet_rest a chain_resp switch_resp add_resp w
        network_resp signer_resp (app \<sigma>)")
    have nc: "\<not> isConnecting s'"
      using connectWallet_rest_isConnecting
        [of a chain_resp switch_resp add_resp w network_resp signer_resp "app \<sigma>"] r
      by simp
    have "in_flight \<sigma> \<le> 1" using inv by (simp add: session_inv_def)
    with in_flight_settle [OF ix]
    have "length (filter (\<lambda>c. c \<noteq> Settled) ((calls \<sigma>)[i := Settled])) = 0" by arith
    with Resumed r nc show ?thesis
      by (simp add: session_inv_def in_flight_def)
  next
    case AwaitingAccounts
    with inv show ?thesis by simp
  next
    case Settled
    with inv show ?thesis by simp
  qed
  with rest ConnectResume show ?thesis by blast
next
  case (AccountsChanged accounts w network_resp signer_resp)
  with sched have rest: "render_between_calls u evs" by simp
  have "session_inv eth u (session_step eth \<sigma> (AccountsChanged accounts w network_resp signer_resp))"
    using inv by (simp add: session_inv_def in_flight_def handleAccountsChanged_isConnecting)
  with rest AccountsChanged show ?thesis by blast
next
  case (SwitchNetworkClick chain_resp switch_resp add_resp w network_resp signer_resp)
  with sched have rest: "render_between_calls u evs" by simp
  obtain s' tr where r: "switchNetwork chain_resp switch_resp add_resp w
      network_resp signer_resp (rendered \<sigma>) (app \<sigma>) = (s', tr)"
    by (cases "switchNetwork chain_resp switch_resp add_resp w network_resp signer_resp
      (rendered \<sigma>) (app \<sigma>)")
  have "isConnecting s' = isConnecting (app \<sigma>)"
    using switchNetwork_isConnecting
      [of chain_resp switch_resp add_resp w network_resp signer_resp "rendered \<sigma>" "app \<sigma>"] r
    by simp
  with inv r have "session_inv eth u (session_step eth \<sigma>
      (SwitchNetworkClick chain_resp switch_resp add_resp w network_resp signer_resp))"
    by (simp add: session_inv_def in_flight_def)
  with rest SwitchNetworkClick show ?thesis by blast
next
  case DisconnectClick
  with sched have rest: "render_between_calls u evs" by simp
  have "session_inv eth u (session_step eth \<sigma> DisconnectClick)"
    using inv by (simp add: session_inv_def in_flight_def disconnectWallet_def)
  with rest DisconnectClick show ?thesis by blast
next
  case DismissConnectionError
  with sched have rest: "render_between_calls u evs" by simp
  have "session_inv eth u (session_step eth \<sigma> DismissConnectionError)"
    using inv by (simp add: session_inv_def in_flight_def)
  with rest DismissConnectionError show ?thesis by blast
qed

lemma foldl_session_inv:
  "session_inv eth u \<sigma> \<Longrightarrow> render_between_calls u evs \<Longrightarrow>
   \<exists>u'. session_inv eth u' (foldl (session_step eth) \<sigma> evs)"
proof (induction evs arbitrary: \<sigma> u)
  case Nil
  then show ?case by auto
next
  case (Cons ev evs)
  from session_step_inv [OF Cons.prems]
  obtain u' where "session_inv eth u' (session_step eth \<sigma> ev)" "render_between_calls u' evs"
    by blast
  from Cons.IH [OF this] show ?case by simp
qed

lemma session_run_inv:
  "render_between_calls False evs \<Longrightarrow> \<exists>u. session_inv eth u (session_run eth evs)"
  unfolding session_run_def
  by (rule foldl_session_inv)
     (simp_all add: session_inv_def in_flight_def session_init_def app_init_def)

lemma render_between_calls_take:
  "render_between_calls u evs \<Longrightarrow> render_between_calls u (take n evs)"
proof (induction evs arbitrary: u n)
  case Nil
  then show ?case by simp
next
  case (Cons ev evs)
  show ?case
  proof (cases n)
    case 0
    then show ?thesis by simp
  next
    case (Suc m)
    with Cons show ?thesis by (cases ev) simp_all
  qed
qed

lemma awaiting_le_in_flight: "awaiting_accounts \<sigma> \<le> in_flight \<sigma>"
proof -
  have "length (filter (\<lambda>c. c = AwaitingAccounts) xs) \<le> length (filter (\<lambda>c. c \<noteq> Settled) xs)"
    for xs :: "call_phase list"
    by (induction xs) auto
  then show ?thesis by (simp add: awaiting_accounts_def in_flight_def)
qed

lemma connectWallet_after_render:
  "\<not> isConnecting (app \<sigma>) \<Longrightarrow> in_flight \<sigma> = 0 \<Longrightarrow> eth \<Longrightarrow>
   requests (session_step eth (session_step eth \<sigma> Render) ConnectClick) =
     requests \<sigma> @ [EthRequestAccounts] \<and>
   in_flight (session_step eth (session_step eth \<sigma> Render) ConnectClick) = 1"
  by (simp add: connectWallet_start_def in_flight_def)

text \<open>
  C8, as stated, at a concrete input.  The claim says that a call of
  \<open>connectWallet\<close> made while another is in flight returns the result of that one.
  After a first call, a render and a second call, the second call has settled while the
  first still waits for its accounts: it has returned at the guard, at once, and only
  one request has been issued.
\<close>

theorem connectWallet_returns_at_once_counterexample:
  "calls (session_run True [ConnectClick, Render, ConnectClick]) = [AwaitingAccounts, Settled] \<and>
   in_flight (session_run True [ConnectClick, Render, ConnectClick]) = 1 \<and>
   requests (session_run True [ConnectClick, Render, ConnectClick]) = [EthRequestAccounts]"
  by (simp add: session_run_def session_init_def connectWallet_start_def app_init_def
      in_flight_def)

text \<open>
  Two calls within one render both read the \<open>isConnecting\<close> of that render and
  both issue the request; hence the condition on renders below.
\<close>

lemma connectWallet_same_render:
  "calls (session_run True [ConnectClick, ConnectClick]) = [AwaitingAccounts, AwaitingAccounts] \<and>
   requests (session_run True [ConnectClick, ConnectClick]) =
     [EthRequestAccounts, EthRequestAccounts]"
  by (simp add: session_run_def session_init_def connectWallet_start_def app_init_def)

text \<open>
  C8, amended.  When the component is rendered at least once between any two calls of
  \<open>connectWallet\<close>, then after any sequence of handler runs, renders and
  resumptions: the number of calls in flight is one when \<open>isConnecting\<close> is set and
  none otherwise, so at most one \<open>eth_requestAccounts\<close> request is unanswered,
  there and after every prefix of the sequence.
  While a call is in flight, a further call after a render has settled at once and has
  changed nothing else: no state is written and no request is issued.  When none is in
  flight and the wallet provider exists, a call after a render issues one request and is
  in flight.
\<close>

theorem connectWallet_coalesced:
  assumes "render_between_calls False evs"
  shows
   "in_flight (session_run eth evs) = (if isConnecting (app (session_run eth evs)) then 1 else 0) \<and>
    awaiting_accounts (session_run eth evs) \<le> 1 \<and>
    (0 < in_flight (session_run eth evs) \<longrightarrow>
       session_step eth (session_step eth (session_run eth evs) Render) ConnectClick =
         (session_step eth (session_run eth evs) Render)
           \<lparr>calls := calls (session_run eth evs) @ [Settled]\<rparr>) \<and>
    (in_flight (session_run eth evs) = 0 \<and> eth \<longrightarrow>
       requests (session_step eth (session_step eth (session_run eth evs) Render) ConnectClick) =
         requests (session_run eth evs) @ [EthRequestAccounts] \<and>
       in_flight (session_step eth (session_step eth (session_run eth evs) Render) ConnectClick) = 1) \<and>
    (\<forall>n. awaiting_accounts (session_run eth (take n evs)) \<le> 1)"
proof -
  let ?\<sigma> = "session_run eth evs"
  have e: "\<forall>n. awaiting_accounts (session_run eth (take n evs)) \<le> 1"
  proof
    fix n
    from session_run_inv [OF render_between_calls_take [OF assms, of n]]
    obtain u where "session_inv eth u (session_run eth (take n evs))" by blast
    then have "in_flight (session_run eth (take n evs)) \<le> 1"
      by (simp add: session_inv_def)
    with awaiting_le_in_flight [of "session_run eth (take n evs)"]
    show "awaiting_accounts (session_run eth (take n evs)) \<le> 1" by simp
  qed
  from session_run_inv [OF assms] obtain u where i: "session_inv eth u ?\<sigma>" by blast
  then have a: "in_flight ?\<sigma> = (if isConnecting (app ?\<sigma>) then 1 else 0)"
    by (simp add: session_inv_def)
  then have "in_flight ?\<sigma> \<le> 1" by simp
  with awaiting_le_in_flight [of ?\<sigma>] have b: "awaiting_accounts ?\<sigma> \<le> 1" by simp
  have c: "0 < in_flight ?\<sigma> \<longrightarrow>
       session_step eth (session_step eth ?\<sigma> Render) ConnectClick =
         (session_step eth ?\<sigma> Render)\<lparr>calls := calls ?\<sigma> @ [Settled]\<rparr>"
  proof
    assume "0 < in_flight ?\<sigma>"
    with i have "isConnecting (app ?\<sigma>)" "eth"
      by (auto simp: session_inv_def split: if_splits)
    then show "session_step eth (session_step eth ?\<sigma> Render) ConnectClick =
         (session_step eth ?\<sigma> Render)\<lparr>calls := calls ?\<sigma> @ [Settled]\<rparr>"
      by (simp add: connectWallet_start_def)
  qed
  have d: "in_flight ?\<sigma> = 0 \<and> eth \<longrightarrow>
       requests (session_step eth (session_step eth ?\<sigma> Render) ConnectClick) =
         requests ?\<sigma> @ [EthRequestAccounts] \<and>
       in_flight (session_step eth (session_step eth ?\<sigma> Render) ConnectClick) = 1"
    using a connectWallet_after_render [of ?\<sigma> eth] by (auto split: if_splits)
  show ?thesis using a b c d e by blast
qed

theorem connectWallet_coalesced_witness:
  "render_between_calls False [ConnectClick] \<and>
   0 < in_flight (session_run True [ConnectClick]) \<and>
   isConnecting (app (session_run True [ConnectClick])) \<and>
   awaiting_accounts (session_run True [ConnectClick]) = 1 \<and>
   requests (session_step True (session_step True (session_run True [ConnectClick]) Render)
     ConnectClick) = [EthRequestAccounts] \<and>
   render_between_calls False [] \<and>
   in_flight (session_run True []) = 0 \<and>
   requests (session_step True (session_step True (session_run True []) Render) ConnectClick) =
     [EthRequestAccounts]"
proof -
  have h1: "render_between_calls False [ConnectClick]" by simp
  have h2: "render_between_calls False []" by simp
  have r: "session_run True [ConnectClick] =
      \<lparr>app = app_init\<lparr>isConnecting := True\<rparr>, rendered = app_init,
       calls = [AwaitingAccounts], requests = [EthRequestAccounts]\<rparr>"
    by (simp add: session_run_def session_init_def connectWallet_start_def app_init_def)
  have r0: "session_run True [] = session_init"
    by (simp add: session_run_def)
  have f1: "in_flight (session_run True [ConnectClick]) = 1"
    by (simp add: r in_flight_def)
  have f0: "in_flight (session_run True []) = 0"
    by (simp add: r0 in_flight_def session_init_def)
  have aw: "awaiting_accounts (session_run True [ConnectClick]) = 1"
    by (simp add: r awaiting_accounts_def)
  have rq: "requests (session_run True [ConnectClick]) = [EthRequestAccounts]"
    by (simp add: r)
  have rq0: "requests (session_run True []) = []"
    by (simp add: r0 session_init_def)
  have ic: "isConnecting (app (session_run True [ConnectClick]))"
    by (simp add: r)
  note t1 = connectWallet_coalesced [OF h1, of True, THEN conjunct2, THEN conjunct2, THEN conjunct1]
  have s1: "session_step True (session_step True (session_run True [ConnectClick]) Render)
       ConnectClick =
     (session_step True (session_run True [ConnectClick]) Render)
       \<lparr>calls := calls (session_run True [ConnectClick]) @ [Settled]\<rparr>"
    by (rule mp [OF t1]) (simp add: f1)
  have q1: "requests (session_step True (session_step True (session_run True [ConnectClick]) Render)
     ConnectClick) = [EthRequestAccounts]"
    unfolding s1 using rq by simp
  note t0 = connectWallet_coalesced
    [OF h2, of True, THEN conjunct2, THEN conjunct2, THEN conjunct2, THEN conjunct1]
  have q0: "requests (session_step True (session_step True (session_run True []) Render)
      ConnectClick) = requests (session_run True []) @ [EthRequestAccounts]"
    using mp [OF t0] f0 by blast
  show ?thesis using h1 h2 f1 f0 aw ic q1 q0 rq0 by simp
qed

end
